theory Spec2Isabelle
  imports Main
begin

section \<open>Specifications, instances and exceptions\<close>

text \<open>
  The registry of \<^verbatim>\<open>src/lib/algo_base/algo_registry.h\<close> is a class template over an
  algorithm family \<open>T\<close>. It uses the family's specification type \<open>T::Spec\<close> only through
  \<open>algo_name()\<close>, \<open>as_string()\<close> and \<open>arg(i)\<close>; the type itself is declared elsewhere, so
  the three accessors are the fields of the record. \<open>arg i\<close> either yields the argument at
  position \<open>i\<close> or raises.
\<close>

datatype exn =
    Runtime_error string
  | Bad_function_call
  | Std_exception string
  | Foreign_exception nat

text \<open>
  \<open>Runtime_error\<close> is \<open>std::runtime_error\<close>, \<open>Bad_function_call\<close> is what calling an empty
  \<open>std::function\<close> throws, \<open>Std_exception\<close> is any other class derived from
  \<open>std::exception\<close> (with its \<open>what()\<close> text) and \<open>Foreign_exception\<close> is a thrown value of a
  type that does not derive from \<open>std::exception\<close>. The text of \<open>std::bad_function_call\<close>
  is the library's choice; it is the one of libstdc++ here. A foreign exception has no
  \<open>what()\<close>, and no handler of this file asks for it.
\<close>

fun derives_std_exception :: "exn \<Rightarrow> bool" where
  "derives_std_exception (Runtime_error m) = True"
| "derives_std_exception Bad_function_call = True"
| "derives_std_exception (Std_exception m) = True"
| "derives_std_exception (Foreign_exception n) = False"

fun what :: "exn \<Rightarrow> string" where
  "what (Runtime_error m) = m"
| "what Bad_function_call = ''bad_function_call''"
| "what (Std_exception m) = m"
| "what (Foreign_exception n) = []"

record Spec =
  algo_name :: string
  as_string :: string
  arg :: "nat \<Rightarrow> exn + string"

text \<open>
  A call that returns \<open>T*\<close> either returns a pointer (\<open>None\<close> is \<open>nullptr\<close>) or raises.
\<close>

datatype 't result = Returned "'t option" | Raised exn

text \<open>
  \<open>maker_fn\<close> is \<open>std::function<T* (const Spec&)>\<close>: \<open>None\<close> is the empty function object,
  the one that converts to \<open>false\<close> and throws \<open>std::bad_function_call\<close> when called.
\<close>

type_synonym 't maker = "Spec \<Rightarrow> 't result"

type_synonym 't maker_fn = "'t maker option"

definition invoke :: "'t maker_fn \<Rightarrow> Spec \<Rightarrow> 't result" where
  "invoke fn spec = (case fn of None \<Rightarrow> Raised Bad_function_call | Some f \<Rightarrow> f spec)"

section \<open>The table\<close>

text \<open>
  \<open>m_maker_fns\<close> is an \<open>unordered_map\<close> from base names to an \<open>unordered_map\<close> from provider
  names to makers. The outer container is only searched by key, so it is a map. The inner
  one is also read through \<open>begin()\<close> and \<open>size()\<close>, so it is the list of its entries in
  iteration order: \<open>begin()\<close> is the head. The standard does not say where a new key
  lands in that order; \<open>subscript\<close> takes the position as an argument. (A rehash may
  also permute the older entries. The general theorems below look entries up by key and
  hold for every order; the order is read only at the concrete tables of the examples.)
  \<open>m_mutex\<close> serialises concurrent calls; the calls here are sequential, and the mutex has
  no part in what they compute.
\<close>

type_synonym 't provider_map = "(string \<times> 't maker_fn) list"

record 't Algo_Registry =
  m_maker_fns :: "string \<Rightarrow> 't provider_map option"

definition empty_registry :: "'t Algo_Registry" where
  "empty_registry = \<lparr>m_maker_fns = Map.empty\<rparr>"

text \<open>\<open>operator[]\<close>: a key that is absent is inserted with an empty function object.\<close>

definition subscript :: "nat \<Rightarrow> string \<Rightarrow> 't provider_map \<Rightarrow> 't provider_map" where
  "subscript pos k m =
     (case map_of m k of
        Some v \<Rightarrow> m
      | None \<Rightarrow> take pos m @ (k, None) # drop pos m)"

text \<open>Assignment through the reference \<open>operator[]\<close> returned.\<close>

definition assign :: "string \<Rightarrow> 't maker_fn \<Rightarrow> 't provider_map \<Rightarrow> 't provider_map" where
  "assign k v m = map (\<lambda>(k', v'). if k' = k then (k', v) else (k', v')) m"

text \<open>
  \<^verbatim>\<open>if(!m_maker_fns[name][provider]) m_maker_fns[name][provider] = fn;\<close>
  The test is on the stored function object, after both subscripts have created what was
  missing.
\<close>

definition add ::
  "nat \<Rightarrow> string \<Rightarrow> string \<Rightarrow> 't maker_fn \<Rightarrow> 't Algo_Registry \<Rightarrow> 't Algo_Registry" where
  "add pos name provider fn reg =
     (let inner = subscript pos provider
                    (case m_maker_fns reg name of None \<Rightarrow> [] | Some ps \<Rightarrow> ps)
      in case map_of inner provider of
           Some (Some f) \<Rightarrow> reg\<lparr>m_maker_fns := (m_maker_fns reg)(name \<mapsto> inner)\<rparr>
         | _ \<Rightarrow> reg\<lparr>m_maker_fns := (m_maker_fns reg)(name \<mapsto> assign provider fn inner)\<rparr>)"

text \<open>
  \<open>providers\<close> walks the inner container and collects the keys. The member as written
  does not compile once instantiated: it pushes the whole entry \<open>prov\<close> into a vector of
  strings, and it locks \<open>m_mutex\<close>, which is not \<open>mutable\<close>, in a \<open>const\<close> member. The
  definition is the member with the key pushed; the list it returns is read only in the
  examples. The function is \<open>const\<close>; the registry is returned to state that.
\<close>

definition providers :: "'t Algo_Registry \<Rightarrow> string \<Rightarrow> string list \<times> 't Algo_Registry" where
  "providers reg basename =
     (case m_maker_fns reg basename of
        None \<Rightarrow> ([], reg)
      | Some ps \<Rightarrow> (fold (\<lambda>prov v. v @ [fst prov]) ps [], reg))"

section \<open>Lookup and construction\<close>

text \<open>The default result of \<open>find_maker\<close>: a function producing a null pointer.\<close>

definition null_maker :: "'t maker_fn" where
  "null_maker = Some (\<lambda>spec. Returned None)"

definition find_maker ::
  "'t Algo_Registry \<Rightarrow> Spec \<Rightarrow> string \<Rightarrow> 't maker_fn \<times> 't Algo_Registry" where
  "find_maker reg spec provider =
     (let basename = algo_name spec in
      case m_maker_fns reg basename of
        None \<Rightarrow> (null_maker, reg)
      | Some provs \<Rightarrow>
          if provs \<noteq> [] then
            if provider \<noteq> [] then
              (case map_of provs provider of
                 Some fn \<Rightarrow> (fn, reg)
               | None \<Rightarrow> (null_maker, reg))
            else if length provs = 1 then (snd (hd provs), reg)
            else if length provs > 1 then (snd (hd provs), reg)
            else (null_maker, reg)
          else (null_maker, reg))"

text \<open>
  The \<open>try\<close> block of \<open>make\<close>: the handler catches \<open>std::exception&\<close> only, and throws
  \<^verbatim>\<open>std::runtime_error("Creating '" + spec.as_string() + "' failed: " + e.what())\<close>.
\<close>

definition failure_message :: "Spec \<Rightarrow> exn \<Rightarrow> string" where
  "failure_message spec e =
     ''Creating '' @ [CHR 0x27] @ as_string spec @ [CHR 0x27] @ '' failed: '' @ what e"

definition try_maker :: "'t maker_fn \<Rightarrow> Spec \<Rightarrow> 't result" where
  "try_maker maker spec =
     (case invoke maker spec of
        Returned p \<Rightarrow> Returned p
      | Raised e \<Rightarrow>
          if derives_std_exception e
          then Raised (Runtime_error (failure_message spec e))
          else Raised e)"

definition make ::
  "'t Algo_Registry \<Rightarrow> Spec \<Rightarrow> string \<Rightarrow> 't result \<times> 't Algo_Registry" where
  "make reg spec provider =
     (case find_maker reg spec provider of
        (maker, reg') \<Rightarrow> (try_maker maker spec, reg'))"

text \<open>
  \<open>make\<close> and \<open>make_a\<close> declare \<open>provider = ""\<close>: a call that leaves the argument out
  passes the empty string. \<open>make_a\<close> forwards to the family's global registry.
\<close>

definition make_a ::
  "'t Algo_Registry \<Rightarrow> Spec \<Rightarrow> string option \<Rightarrow> 't result \<times> 't Algo_Registry" where
  "make_a global_registry spec provider =
     make global_registry spec (case provider of None \<Rightarrow> [] | Some p \<Rightarrow> p)"

section \<open>Registration handles\<close>

text \<open>
  The two constructors of the nested class \<open>Add\<close>. The first declares
  \<open>provider = "builtin"\<close>; \<open>None\<close> is a construction that leaves the argument out. The
  class has no data member and no other member function.
\<close>

definition Add ::
  "nat \<Rightarrow> string \<Rightarrow> 't maker_fn \<Rightarrow> string option \<Rightarrow> 't Algo_Registry \<Rightarrow> 't Algo_Registry" where
  "Add pos basename fn provider global_registry =
     add pos basename (case provider of None \<Rightarrow> ''builtin'' | Some p \<Rightarrow> p) fn global_registry"

definition Add_cond ::
  "nat \<Rightarrow> bool \<Rightarrow> string \<Rightarrow> 't maker_fn \<Rightarrow> string \<Rightarrow> 't Algo_Registry \<Rightarrow> 't Algo_Registry" where
  "Add_cond pos cond basename fn provider global_registry =
     (if cond then add pos basename provider fn global_registry else global_registry)"

section \<open>The dependent-construction adapter\<close>

text \<open>
  \<open>std::unique_ptr<X>\<close> holds a pointer; \<open>release\<close> hands the pointer out and leaves the
  holder empty; the destructor deletes what the holder still has.
\<close>

definition release :: "'x option \<Rightarrow> 'x option \<times> 'x option" where
  "release held = (held, None)"

definition destroy :: "'x option \<Rightarrow> 'x list" where
  "destroy held = (case held of None \<Rightarrow> [] | Some x \<Rightarrow> [x])"

text \<open>
  \<open>make_new_T_1X<T, X>\<close>. The constructor of \<open>T\<close> from an \<open>X*\<close> and the conversion of
  a string to \<open>X::Spec\<close> belong to other files and are arguments; \<open>global_registry_X\<close>
  is the registry of family \<open>X\<close> at the time of the call. The result is what the call
  returns or raises, the \<open>X\<close> objects deleted by the \<open>unique_ptr\<close> on the way out, and
  the registry of \<open>X\<close> afterwards.
\<close>

definition make_new_T_1X ::
  "('x option \<Rightarrow> exn + 't) \<Rightarrow> (string \<Rightarrow> exn + Spec) \<Rightarrow> 'x Algo_Registry \<Rightarrow> Spec
     \<Rightarrow> 't result \<times> 'x list \<times> 'x Algo_Registry" where
  "make_new_T_1X new_T Spec_of global_registry_X spec =
     (case arg spec 0 of
        Inl e \<Rightarrow> (Raised e, [], global_registry_X)
      | Inr s \<Rightarrow>
          (case Spec_of s of
             Inl e \<Rightarrow> (Raised e, [], global_registry_X)
           | Inr nested \<Rightarrow>
               (case make global_registry_X nested [] of
                  (Raised e, regX) \<Rightarrow> (Raised e, [], regX)
                | (Returned x, regX) \<Rightarrow>
                    if x = None then (Raised (Runtime_error s), destroy x, regX)
                    else
                      (case release x of
                         (raw, x') \<Rightarrow>
                           (case new_T raw of
                              Inl e \<Rightarrow> (Raised e, destroy x', regX)
                            | Inr t \<Rightarrow> (Returned (Some t), destroy x', regX))))))"

section \<open>What is registered\<close>

text \<open>
  The function object stored for a base name and a provider:
  \<open>m_maker_fns.find(name)\<close>, then \<open>find(provider)\<close> in what was found.
\<close>

definition registered_maker ::
  "'t Algo_Registry \<Rightarrow> string \<Rightarrow> string \<Rightarrow> 't maker_fn option" where
  "registered_maker reg name provider =
     (case m_maker_fns reg name of None \<Rightarrow> None | Some ps \<Rightarrow> map_of ps provider)"

section \<open>The selection the specification asks for\<close>

text \<open>
  \<open>static_provider_weight\<close> is declared at the top of the header and defined elsewhere;
  it is the argument \<open>weight\<close>. The specification's rule for a lookup with no provider
  hint and several providers, in its words: select the highest-weighted one, breaking
  remaining ties by lexicographic provider name (read here as: the name that comes first
  wins; bytes compare as unsigned values).
\<close>

fun lex_less :: "string \<Rightarrow> string \<Rightarrow> bool" where
  "lex_less [] [] = False"
| "lex_less [] (d # ds) = True"
| "lex_less (c # cs) [] = False"
| "lex_less (c # cs) (d # ds) =
     ((of_char c :: nat) < of_char d \<or> (c = d \<and> lex_less cs ds))"

definition spec_prefers :: "(string \<Rightarrow> nat) \<Rightarrow> string \<Rightarrow> string \<Rightarrow> bool" where
  "spec_prefers weight p q = (weight q < weight p \<or> (weight q = weight p \<and> lex_less p q))"

fun spec_selection :: "(string \<Rightarrow> nat) \<Rightarrow> string list \<Rightarrow> string option" where
  "spec_selection weight [] = None"
| "spec_selection weight (p # ps) =
     (case spec_selection weight ps of
        None \<Rightarrow> Some p
      | Some q \<Rightarrow> if spec_prefers weight p q then Some p else Some q)"

section \<open>Example registries\<close>

text \<open>
  Concrete families for the worked examples: instances are numbers, so that one can see
  which maker produced a result.
\<close>

definition absent_arg :: "nat \<Rightarrow> exn + string" where
  "absent_arg i = Inl (Std_exception ''argument out of range'')"

definition echo_spec :: Spec where
  "echo_spec = \<lparr>algo_name = ''Echo'', as_string = ''Echo'', arg = absent_arg\<rparr>"

definition echo_maker :: "nat maker" where
  "echo_maker spec = Returned (Some 1)"

definition second_maker :: "nat maker" where
  "second_maker spec = Returned (Some 2)"

definition failing_maker :: "nat maker" where
  "failing_maker spec = Raised (Std_exception ''invalid key length'')"

definition foreign_maker :: "nat maker" where
  "foreign_maker spec = Raised (Foreign_exception 7)"

definition echo_registry :: "nat Algo_Registry" where
  "echo_registry = Add 0 ''Echo'' (Some echo_maker) None empty_registry"

definition unnamed_registry :: "nat Algo_Registry" where
  "unnamed_registry = add 0 ''Echo'' [] (Some second_maker) echo_registry"

definition shadowed_registry :: "nat Algo_Registry" where
  "shadowed_registry =
     add 0 ''Echo'' ''builtin'' (Some echo_maker)
       (add 0 ''Echo'' [] (Some second_maker) empty_registry)"

definition outer_spec :: Spec where
  "outer_spec = \<lparr>algo_name = ''Outer'', as_string = ''Outer(Echo)'',
                  arg = (\<lambda>i. if i = 0 then Inr ''Echo'' else absent_arg i)\<rparr>"

definition plain_spec :: "string \<Rightarrow> exn + Spec" where
  "plain_spec s = Inr \<lparr>algo_name = s, as_string = s, arg = absent_arg\<rparr>"

definition wrap :: "nat option \<Rightarrow> exn + nat list" where
  "wrap raw = (case raw of None \<Rightarrow> Inr [] | Some x \<Rightarrow> Inr [x])"

definition aes_spec :: Spec where
  "aes_spec = \<lparr>algo_name = ''AES-128'', as_string = ''AES-128'', arg = absent_arg\<rparr>"

definition sw_maker :: "nat maker" where
  "sw_maker spec = Returned (Some 10)"

definition hw_maker :: "nat maker" where
  "hw_maker spec = Returned (Some 20)"

definition example_weight :: "string \<Rightarrow> nat" where
  "example_weight p = (if p = ''hw'' then 2 else 1)"

text \<open>
  The same two registrations in both orders, each new key landing first in the iteration
  order.
\<close>

definition sw_registered_last :: "nat Algo_Registry" where
  "sw_registered_last =
     add 0 ''AES-128'' ''sw'' (Some sw_maker)
       (add 0 ''AES-128'' ''hw'' (Some hw_maker) empty_registry)"

definition hw_registered_last :: "nat Algo_Registry" where
  "hw_registered_last =
     add 0 ''AES-128'' ''hw'' (Some hw_maker)
       (add 0 ''AES-128'' ''sw'' (Some sw_maker) empty_registry)"

section \<open>The container operations\<close>

lemma map_of_insert_at:
  "map_of m k = None \<Longrightarrow>
   map_of (take pos m @ (k, v) # drop pos m) k' = (if k' = k then Some v else map_of m k')"
proof (induction m arbitrary: pos)
  case Nil
  then show ?case by simp
next
  case (Cons e m)
  then show ?case by (cases pos) (auto split: if_splits)
qed

lemma map_of_subscript:
  "map_of (subscript pos k m) k' =
     (if k' = k then (case map_of m k of None \<Rightarrow> Some None | Some v \<Rightarrow> Some v)
      else map_of m k')"
proof (cases "map_of m k")
  case None
  then show ?thesis
    using map_of_insert_at [OF None, of pos None k'] by (simp add: subscript_def)
next
  case (Some v)
  then show ?thesis by (simp add: subscript_def)
qed

lemma subscript_present: "map_of m k = Some v \<Longrightarrow> subscript pos k m = m"
  by (simp add: subscript_def)

lemma map_of_assign:
  "map_of (assign k v m) k' =
     (if k' = k then (case map_of m k of None \<Rightarrow> None | Some w \<Rightarrow> Some v)
      else map_of m k')"
  by (induction m) (auto simp: assign_def split: option.splits)

lemma keys_assign: "map fst (assign k v m) = map fst m"
  by (induction m) (auto simp: assign_def)

text \<open>The keys of a provider map stay pairwise different, as in the container.\<close>

lemma keys_insert_at:
  "set (map fst (take pos m @ (k, v) # drop pos m)) = insert k (set (map fst m))"
proof -
  have "set (map fst m) = set (map fst (take pos m @ drop pos m))" by simp
  then show ?thesis by (simp only: map_append set_append list.map set_simps fst_conv) blast
qed

lemma distinct_insert_at:
  "distinct (map fst m) \<Longrightarrow> k \<notin> set (map fst m) \<Longrightarrow>
   distinct (map fst (take pos m @ (k, v) # drop pos m))"
proof (induction m arbitrary: pos)
  case Nil
  then show ?case by simp
next
  case (Cons e m)
  show ?case
  proof (cases pos)
    case 0
    with Cons.prems show ?thesis by auto
  next
    case (Suc q)
    have "fst e \<notin> set (map fst (take q m @ (k, v) # drop q m))"
      using Cons.prems by (auto simp only: keys_insert_at) auto
    with Cons Suc show ?thesis by simp
  qed
qed

lemma distinct_subscript:
  assumes "distinct (map fst m)"
  shows "distinct (map fst (subscript pos k m))"
proof (cases "map_of m k")
  case None
  then have "k \<notin> set (map fst m)" by (simp add: map_of_eq_None_iff)
  then show ?thesis
    using distinct_insert_at [of m k pos None] None assms by (simp add: subscript_def)
next
  case (Some v)
  then show ?thesis using assms by (simp add: subscript_def)
qed

lemma add_keeps_keys_distinct:
  assumes "\<And>n ps. m_maker_fns reg n = Some ps \<Longrightarrow> distinct (map fst ps)"
    and "m_maker_fns (add pos name provider fn reg) n = Some ps"
  shows "distinct (map fst ps)"
  using assms
  by (auto simp: add_def Let_def keys_assign distinct_subscript
      split: option.splits if_splits)

section \<open>What registration does to the table\<close>

lemma registered_maker_empty: "registered_maker empty_registry n p = None"
  by (simp add: registered_maker_def empty_registry_def)

lemma registered_maker_add:
  "registered_maker (add pos name provider fn reg) n p =
     (if n = name \<and> p = provider
      then (case registered_maker reg name provider of
              Some (Some f) \<Rightarrow> Some (Some f)
            | _ \<Rightarrow> Some fn)
      else registered_maker reg n p)"
  by (auto simp: registered_maker_def add_def Let_def map_of_subscript map_of_assign
           split: option.splits)

lemma registered_single:
  "registered_maker (add pos name provider fn empty_registry) name provider = Some fn"
  by (simp add: registered_maker_add registered_maker_empty)

lemma add_noop:
  "registered_maker reg name provider = Some (Some f) \<Longrightarrow> add pos name provider fn reg = reg"
  by (auto simp: registered_maker_def add_def Let_def subscript_present map_upd_triv
           split: option.splits)

lemma providers_keys: "fold (\<lambda>prov v. v @ [fst prov]) ps acc = acc @ map fst ps"
  by (induction ps arbitrary: acc) auto

section \<open>What lookup returns\<close>

lemma find_maker_keeps: "snd (find_maker reg spec provider) = reg"
  by (simp add: find_maker_def Let_def split: option.splits)

lemma make_eq: "make reg spec provider = (try_maker (fst (find_maker reg spec provider)) spec, reg)"
  using find_maker_keeps [of reg spec provider]
  by (cases "find_maker reg spec provider") (simp add: make_def)

lemma try_null_maker: "try_maker null_maker spec = Returned None"
  by (simp add: try_maker_def null_maker_def invoke_def)

lemma find_maker_explicit:
  "provider \<noteq> [] \<Longrightarrow>
   find_maker reg spec provider =
     (case registered_maker reg (algo_name spec) provider of
        Some fn \<Rightarrow> (fn, reg)
      | None \<Rightarrow> (null_maker, reg))"
  by (auto simp: find_maker_def registered_maker_def Let_def split: option.splits)

lemma find_maker_no_hint:
  "m_maker_fns reg (algo_name spec) = Some (e # es) \<Longrightarrow> find_maker reg spec [] = (snd e, reg)"
  by (simp add: find_maker_def)

lemma find_maker_unknown:
  "m_maker_fns reg (algo_name spec) = None \<Longrightarrow> find_maker reg spec provider = (null_maker, reg)"
  by (simp add: find_maker_def)

lemma echo_registry_entries:
  "registered_maker echo_registry ''Echo'' [] = None"
  "registered_maker echo_registry ''Echo'' ''builtin'' = Some (Some echo_maker)"
  "registered_maker echo_registry ''Echo'' ''vendor'' = None"
  by (simp_all add: echo_registry_def Add_def registered_maker_add registered_maker_empty)

section \<open>Requests that nothing satisfies\<close>

text \<open>
  Claim C2. When the base name of the specification has no entry in the table, or when a
  provider is named (the name is not empty) and the base name has no entry under that
  provider, \<open>make\<close> returns the null pointer: it raises nothing, it does not use the maker
  of any other provider, and the registry is as before.
\<close>

theorem make_not_available:
  assumes "m_maker_fns reg (algo_name spec) = None
           \<or> (provider \<noteq> [] \<and> registered_maker reg (algo_name spec) provider = None)"
  shows "make reg spec provider = (Returned None, reg)"
  using assms
proof
  assume "m_maker_fns reg (algo_name spec) = None"
  then show ?thesis by (simp add: make_def find_maker_unknown try_null_maker)
next
  assume "provider \<noteq> [] \<and> registered_maker reg (algo_name spec) provider = None"
  then show ?thesis by (simp add: make_def find_maker_explicit try_null_maker)
qed

text \<open>
  With \<open>Echo\<close> registered under \<open>builtin\<close> only: asking for \<open>vendor\<close> yields the null
  pointer although \<open>builtin\<close> would have produced instance 1, and so does asking for a base
  name that was never registered.
\<close>

theorem make_not_available_witness:
  "make echo_registry echo_spec ''vendor'' = (Returned None, echo_registry)
   \<and> fst (make echo_registry echo_spec ''builtin'') = Returned (Some 1)
   \<and> make echo_registry (echo_spec\<lparr>algo_name := ''Nothing''\<rparr>) ''builtin''
       = (Returned None, echo_registry)"
proof -
  have b: "m_maker_fns echo_registry ''Nothing'' = None"
    by (simp add: echo_registry_def Add_def add_def empty_registry_def Let_def
        subscript_def assign_def)
  have d: "fst (make echo_registry echo_spec ''builtin'') = Returned (Some 1)"
    by (simp add: make_def find_maker_explicit echo_registry_entries echo_spec_def
        try_maker_def invoke_def echo_maker_def)
  show ?thesis
    using make_not_available [of echo_registry echo_spec "''vendor''"]
      make_not_available [of echo_registry "echo_spec\<lparr>algo_name := ''Nothing''\<rparr>" "''builtin''"]
      echo_registry_entries b d
    by (simp add: echo_spec_def)
qed

section \<open>A single provider\<close>

text \<open>
  Claim C6. When the base name has exactly one registered provider, a lookup without a
  provider hint returns the function object stored for that provider, whatever the
  provider is called, and \<open>make_a\<close> with the provider left out runs it.
\<close>

theorem single_provider_selected:
  assumes "m_maker_fns reg (algo_name spec) = Some [(p, fn)]"
  shows "find_maker reg spec [] = (fn, reg)
         \<and> make_a reg spec None = (try_maker fn spec, reg)"
  using assms by (simp add: make_a_def make_def find_maker_def)

theorem single_provider_selected_witness:
  "find_maker (add 0 ''Echo'' ''vendor'' (Some second_maker) empty_registry) echo_spec []
     = (Some second_maker, add 0 ''Echo'' ''vendor'' (Some second_maker) empty_registry)
   \<and> make_a (add 0 ''Echo'' ''vendor'' (Some second_maker) empty_registry) echo_spec None
     = (Returned (Some 2), add 0 ''Echo'' ''vendor'' (Some second_maker) empty_registry)"
proof -
  have "m_maker_fns (add 0 ''Echo'' ''vendor'' (Some second_maker) empty_registry)
          (algo_name echo_spec) = Some [(''vendor'', Some second_maker)]"
    by (simp add: add_def empty_registry_def subscript_def assign_def echo_spec_def)
  from single_provider_selected [OF this] show ?thesis
    by (simp add: try_maker_def invoke_def second_maker_def)
qed

section \<open>A maker that raises\<close>

text \<open>
  Claim C3, as the code has it. When the selected maker raises an exception derived from
  \<open>std::exception\<close> (calling an empty function object does), \<open>make\<close> raises one
  \<open>std::runtime_error\<close> whose text is \<open>Creating '\<close>, the specification's \<open>as_string()\<close>,
  \<open>' failed: \<close> and the \<open>what()\<close> of the original exception; the registry is as before.
\<close>

theorem make_wraps_std_exception:
  assumes "invoke (fst (find_maker reg spec provider)) spec = Raised e"
    and "derives_std_exception e"
  shows "make reg spec provider =
           (Raised (Runtime_error
              (''Creating '' @ [CHR 0x27] @ as_string spec @ [CHR 0x27] @ '' failed: '' @ what e)),
            reg)"
  using assms by (simp add: make_eq try_maker_def failure_message_def)

theorem make_wraps_std_exception_witness:
  "make (add 0 ''Echo'' ''builtin'' (Some failing_maker) empty_registry) echo_spec ''builtin'' =
     (Raised (Runtime_error
        (''Creating '' @ [CHR 0x27] @ ''Echo'' @ [CHR 0x27] @ '' failed: invalid key length'')),
      add 0 ''Echo'' ''builtin'' (Some failing_maker) empty_registry)"
proof -
  have "invoke (fst (find_maker (add 0 ''Echo'' ''builtin'' (Some failing_maker) empty_registry)
          echo_spec ''builtin'')) echo_spec = Raised (Std_exception ''invalid key length'')"
    by (simp add: find_maker_explicit registered_single echo_spec_def invoke_def failing_maker_def)
  from make_wraps_std_exception [OF this] show ?thesis
    by (simp add: echo_spec_def)
qed

text \<open>
  The handler is \<open>catch(std::exception& e)\<close>: a maker that throws a value of any other type
  is not caught, and \<open>make\<close> lets it through as it is, with no canonical form attached.
\<close>

theorem make_foreign_exception_counterexample:
  "invoke (fst (find_maker (add 0 ''Echo'' ''builtin'' (Some foreign_maker) empty_registry)
      echo_spec ''builtin'')) echo_spec = Raised (Foreign_exception 7)
   \<and> fst (make (add 0 ''Echo'' ''builtin'' (Some foreign_maker) empty_registry) echo_spec ''builtin'')
       = Raised (Foreign_exception 7)"
  by (simp add: make_eq find_maker_explicit registered_single echo_spec_def invoke_def
      foreign_maker_def try_maker_def)

section \<open>Registering a pair twice\<close>

text \<open>
  Claim C4, as the code has it. Take a base name and a provider name for which the table
  holds no maker yet, and register a maker that is a non-empty function object. A second
  registration for the same pair, with any function object, leaves the registry exactly as
  it was and raises nothing; the table still holds the first maker; and \<open>make\<close> with that
  provider name, when the name is not the empty string, runs the first maker.
\<close>

theorem first_registration_wins:
  assumes "registered_maker reg name provider = None
           \<or> registered_maker reg name provider = Some None"
  shows "add pos' name provider fn' (add pos name provider (Some f) reg)
           = add pos name provider (Some f) reg
         \<and> registered_maker (add pos' name provider fn' (add pos name provider (Some f) reg))
             name provider = Some (Some f)
         \<and> (algo_name spec = name \<and> provider \<noteq> [] \<longrightarrow>
              make (add pos' name provider fn' (add pos name provider (Some f) reg)) spec provider
                = (try_maker (Some f) spec, add pos name provider (Some f) reg))"
proof -
  let ?first = "add pos name provider (Some f) reg"
  have stored: "registered_maker ?first name provider = Some (Some f)"
    using assms by (auto simp: registered_maker_add)
  have noop: "add pos' name provider fn' ?first = ?first"
    by (rule add_noop [OF stored])
  have "algo_name spec = name \<and> provider \<noteq> [] \<longrightarrow>
          make ?first spec provider = (try_maker (Some f) spec, ?first)"
    using stored by (simp add: make_eq find_maker_explicit)
  then show ?thesis using stored noop by simp
qed

theorem first_registration_wins_witness:
  "add 3 ''Echo'' ''builtin'' (Some second_maker) echo_registry = echo_registry
   \<and> registered_maker (add 3 ''Echo'' ''builtin'' (Some second_maker) echo_registry)
        ''Echo'' ''builtin'' = Some (Some echo_maker)
   \<and> make (add 3 ''Echo'' ''builtin'' (Some second_maker) echo_registry) echo_spec ''builtin''
        = (Returned (Some 1), echo_registry)"
proof -
  have h: "registered_maker (empty_registry :: nat Algo_Registry) ''Echo'' ''builtin'' = None
           \<or> registered_maker (empty_registry :: nat Algo_Registry) ''Echo'' ''builtin'' = Some None"
    by (simp add: registered_maker_empty)
  have n: "algo_name echo_spec = ''Echo'' \<and> ''builtin'' \<noteq> []"
    by (simp add: echo_spec_def)
  have t: "try_maker (Some echo_maker) echo_spec = Returned (Some 1)"
    by (simp add: try_maker_def invoke_def echo_maker_def)
  note w = first_registration_wins [OF h, where pos = 0 and pos' = 3 and f = echo_maker
        and fn' = "Some second_maker" and spec = echo_spec]
  from w have a: "add 3 ''Echo'' ''builtin'' (Some second_maker)
                    (add 0 ''Echo'' ''builtin'' (Some echo_maker) empty_registry)
                  = add 0 ''Echo'' ''builtin'' (Some echo_maker) empty_registry"
    by blast
  from w have b: "registered_maker (add 3 ''Echo'' ''builtin'' (Some second_maker)
                    (add 0 ''Echo'' ''builtin'' (Some echo_maker) empty_registry))
                    ''Echo'' ''builtin'' = Some (Some echo_maker)"
    by blast
  from w n t have c: "make (add 3 ''Echo'' ''builtin'' (Some second_maker)
                    (add 0 ''Echo'' ''builtin'' (Some echo_maker) empty_registry)) echo_spec ''builtin''
                  = (Returned (Some 1), add 0 ''Echo'' ''builtin'' (Some echo_maker) empty_registry)"
    by metis
  show ?thesis
    unfolding echo_registry_def Add_def option.case using a b c by blast
qed

text \<open>
  Two inputs where the first registration does not win. First: \<open>add\<close> tests the stored
  function object, not the presence of the key, so when the first maker is the empty
  function object the second registration takes the slot. Second: a pair whose provider
  name is the empty string keeps its first maker in the table, but \<open>make\<close> reads the empty
  string as no hint and here runs the maker of \<open>builtin\<close>.
\<close>

theorem empty_first_registration_counterexample:
  "registered_maker
     (add 0 ''Echo'' ''builtin'' (Some second_maker)
        (add 0 ''Echo'' ''builtin'' None (empty_registry :: nat Algo_Registry)))
     ''Echo'' ''builtin'' = Some (Some second_maker)
   \<and> fst (make (add 0 ''Echo'' ''builtin'' (Some second_maker)
        (add 0 ''Echo'' ''builtin'' None empty_registry)) echo_spec ''builtin'')
      = Returned (Some 2)
   \<and> registered_maker (add 0 ''Echo'' [] (Some foreign_maker) shadowed_registry) ''Echo'' []
      = Some (Some second_maker)
   \<and> fst (make (add 0 ''Echo'' [] (Some foreign_maker) shadowed_registry) echo_spec [])
      = Returned (Some 1)"
proof -
  have a: "registered_maker
     (add 0 ''Echo'' ''builtin'' (Some second_maker)
        (add 0 ''Echo'' ''builtin'' None (empty_registry :: nat Algo_Registry)))
     ''Echo'' ''builtin'' = Some (Some second_maker)"
    by (simp add: registered_maker_add registered_maker_empty)
  have b: "fst (make (add 0 ''Echo'' ''builtin'' (Some second_maker)
        (add 0 ''Echo'' ''builtin'' None empty_registry)) echo_spec ''builtin'')
      = Returned (Some 2)"
    by (simp add: registered_maker_add registered_maker_empty make_eq find_maker_explicit
        echo_spec_def try_maker_def invoke_def second_maker_def)
  have s: "registered_maker shadowed_registry ''Echo'' [] = Some (Some second_maker)"
    by (simp add: shadowed_registry_def registered_maker_add registered_maker_empty)
  have k: "add 0 ''Echo'' [] (Some foreign_maker) shadowed_registry = shadowed_registry"
    by (rule add_noop [OF s])
  have t: "m_maker_fns shadowed_registry ''Echo''
             = Some [(''builtin'', Some echo_maker), ([], Some second_maker)]"
    by (simp add: shadowed_registry_def add_def empty_registry_def subscript_def assign_def)
  have d: "fst (make shadowed_registry echo_spec []) = Returned (Some 1)"
    by (simp add: make_eq find_maker_def t echo_spec_def try_maker_def invoke_def echo_maker_def)
  show ?thesis using a b s k d by simp
qed

section \<open>The table only grows\<close>

text \<open>
  Claim C8, as the code has it. The table is empty at creation. A registration removes no
  key and never changes a stored maker that is a non-empty function object. \<open>find_maker\<close>,
  \<open>make\<close> and \<open>providers\<close> leave the registry as it was, whatever they return or raise.
\<close>

theorem table_grows_only:
  "m_maker_fns empty_registry n = None
   \<and> (registered_maker reg n p = Some (Some f) \<longrightarrow>
      registered_maker (add pos name provider fn reg) n p = Some (Some f))
   \<and> (registered_maker reg n p \<noteq> None \<longrightarrow>
      registered_maker (add pos name provider fn reg) n p \<noteq> None)
   \<and> snd (find_maker reg spec hint) = reg
   \<and> snd (make reg spec hint) = reg
   \<and> snd (providers reg basename) = reg"
  by (auto simp: registered_maker_add make_eq find_maker_keeps providers_def empty_registry_def
      split: option.splits)

text \<open>
  A later registration for \<open>Echo\<close> changes nothing under \<open>builtin\<close>; the registry is the same
  after a request that finds nothing and after one whose maker raises.
\<close>

theorem table_grows_only_witness:
  "registered_maker (add 0 ''Echo'' ''builtin'' (Some second_maker) echo_registry) ''Echo'' ''builtin''
     = Some (Some echo_maker)
   \<and> registered_maker (add 0 ''Echo'' ''vendor'' (Some second_maker) echo_registry) ''Echo'' ''builtin''
     = Some (Some echo_maker)
   \<and> snd (make echo_registry echo_spec ''vendor'') = echo_registry
   \<and> snd (make (add 0 ''Echo'' ''vendor'' (Some failing_maker) echo_registry) echo_spec ''vendor'')
     = add 0 ''Echo'' ''vendor'' (Some failing_maker) echo_registry"
  using echo_registry_entries(2)
    table_grows_only [where reg = echo_registry and n = "''Echo''" and p = "''builtin''"
      and f = echo_maker and pos = 0 and name = "''Echo''" and provider = "''builtin''"
      and fn = "Some second_maker" and spec = echo_spec and hint = "''vendor''"]
    table_grows_only [where reg = echo_registry and n = "''Echo''" and p = "''builtin''"
      and f = echo_maker and pos = 0 and name = "''Echo''" and provider = "''vendor''"
      and fn = "Some second_maker" and spec = echo_spec and hint = "''vendor''"]
    table_grows_only [where reg = "add 0 ''Echo'' ''vendor'' (Some failing_maker) echo_registry"
      and spec = echo_spec and hint = "''vendor''"]
  by blast

text \<open>
  An entry can be replaced: registering the empty function object creates the entry for
  \<open>vendor\<close> (the provider is listed), and the next registration for the pair overwrites
  what the entry holds.
\<close>

theorem empty_entry_replaced_counterexample:
  "registered_maker (add 0 ''Echo'' ''vendor'' None echo_registry) ''Echo'' ''vendor'' = Some None
   \<and> fst (providers (add 0 ''Echo'' ''vendor'' None echo_registry) ''Echo'')
       = [''vendor'', ''builtin'']
   \<and> registered_maker
        (add 0 ''Echo'' ''vendor'' (Some second_maker) (add 0 ''Echo'' ''vendor'' None echo_registry))
        ''Echo'' ''vendor'' = Some (Some second_maker)"
proof -
  have "fst (providers (add 0 ''Echo'' ''vendor'' None echo_registry) ''Echo'')
          = [''vendor'', ''builtin'']"
    by (simp add: providers_def echo_registry_def Add_def add_def empty_registry_def
        subscript_def assign_def)
  then show ?thesis
    by (simp add: registered_maker_add echo_registry_entries)
qed

section \<open>Dependent construction\<close>

text \<open>
  Claim C5. \<open>make_new_T_1X\<close> reads argument 0 and resolves it with \<open>make\<close> on the registry
  of family \<open>X\<close>, with no provider hint. When that returns the null pointer, the adapter
  raises a \<open>std::runtime_error\<close> whose text is the argument-0 string, and builds no \<open>T\<close>.
  When it returns an instance, the adapter passes that instance to the constructor of \<open>T\<close>
  and returns the \<open>T\<close>; the \<open>unique_ptr\<close> has given the instance up and deletes nothing, so
  the \<open>T\<close> is its only holder.
\<close>

theorem make_new_T_1X_dependency:
  assumes "arg spec 0 = Inr s" and "Spec_of s = Inr nested"
  shows "(fst (make regX nested []) = Returned None \<longrightarrow>
            make_new_T_1X new_T Spec_of regX spec = (Raised (Runtime_error s), [], regX))
         \<and> (fst (make regX nested []) = Returned (Some x) \<and> new_T (Some x) = Inr t \<longrightarrow>
            make_new_T_1X new_T Spec_of regX spec = (Returned (Some t), [], regX))"
  using assms
  by (auto simp: make_new_T_1X_def make_eq destroy_def release_def split: result.splits)

text \<open>
  \<open>Outer(Echo)\<close> over a registry of the inner family that is empty, and over one where
  \<open>Echo\<close> is registered: the first raises naming \<open>Echo\<close>, the second wraps instance 1.
\<close>

theorem make_new_T_1X_dependency_witness:
  "make_new_T_1X wrap plain_spec (empty_registry :: nat Algo_Registry) outer_spec
     = (Raised (Runtime_error ''Echo''), [], empty_registry)
   \<and> make_new_T_1X wrap plain_spec echo_registry outer_spec
     = (Returned (Some [1]), [], echo_registry)"
proof -
  have a: "arg outer_spec 0 = Inr ''Echo''" by (simp add: outer_spec_def)
  have b: "plain_spec ''Echo'' = Inr echo_spec" by (simp add: plain_spec_def echo_spec_def)
  have c: "fst (make (empty_registry :: nat Algo_Registry) echo_spec []) = Returned None"
    by (simp add: make_eq find_maker_def empty_registry_def try_null_maker)
  have d: "fst (make echo_registry echo_spec []) = Returned (Some 1) \<and> wrap (Some 1) = Inr [1]"
    by (simp add: make_eq find_maker_def echo_registry_def Add_def add_def empty_registry_def
        subscript_def assign_def echo_spec_def try_maker_def invoke_def echo_maker_def wrap_def)
  show ?thesis
    using make_new_T_1X_dependency [where spec = outer_spec and Spec_of = plain_spec
        and s = "''Echo''" and nested = echo_spec and regX = "empty_registry :: nat Algo_Registry"
        and new_T = wrap and x = 1 and t = "[1]"]
      make_new_T_1X_dependency [where spec = outer_spec and Spec_of = plain_spec
        and s = "''Echo''" and nested = echo_spec and regX = echo_registry
        and new_T = wrap and x = 1 and t = "[1]"] a b c d
    by blast
qed

section \<open>Registration handles are one registration\<close>

text \<open>
  Claim C7. Constructing a handle from a base name and a maker is one call of \<open>add\<close> on
  the family's global registry, under \<open>builtin\<close> when no provider is given and under the
  given provider otherwise. The conditional constructor is that call when its condition
  holds and leaves the registry alone when it does not. After a handle without a provider,
  a pair that had no entry holds the maker, and every other pair holds what it held.
\<close>

theorem registration_handle:
  "Add pos basename fn None reg = add pos basename ''builtin'' fn reg
   \<and> Add pos basename fn (Some provider) reg = add pos basename provider fn reg
   \<and> Add_cond pos cond basename fn provider reg
       = (if cond then add pos basename provider fn reg else reg)
   \<and> (registered_maker reg basename ''builtin'' = None \<longrightarrow>
        registered_maker (Add pos basename fn None reg) basename ''builtin'' = Some fn)
   \<and> (n \<noteq> basename \<or> p \<noteq> ''builtin'' \<longrightarrow>
        registered_maker (Add pos basename fn None reg) n p = registered_maker reg n p)"
  by (auto simp: Add_def Add_cond_def registered_maker_add)

theorem registration_handle_witness:
  "registered_maker echo_registry ''Echo'' ''builtin'' = Some (Some echo_maker)
   \<and> registered_maker echo_registry ''Echo'' ''vendor'' = None
   \<and> fst (providers echo_registry ''Echo'') = [''builtin'']
   \<and> Add_cond 0 False ''Echo'' (Some second_maker) ''vendor'' echo_registry = echo_registry
   \<and> fst (providers (Add_cond 0 True ''Echo'' (Some second_maker) ''vendor'' echo_registry) ''Echo'')
       = [''vendor'', ''builtin'']"
proof -
  note t = registration_handle [where reg = "empty_registry :: nat Algo_Registry" and pos = 0
      and basename = "''Echo''" and fn = "Some echo_maker" and n = "''Echo''" and p = "''vendor''"
      and cond = True and provider = "''builtin''"]
  have e0: "registered_maker (empty_registry :: nat Algo_Registry) ''Echo'' ''builtin'' = None"
    "registered_maker (empty_registry :: nat Algo_Registry) ''Echo'' ''vendor'' = None"
    "''vendor'' \<noteq> ''builtin''"
    by (simp_all add: registered_maker_empty)
  have a: "registered_maker echo_registry ''Echo'' ''builtin'' = Some (Some echo_maker)"
    unfolding echo_registry_def using t e0 by blast
  have b: "registered_maker echo_registry ''Echo'' ''vendor'' = None"
    unfolding echo_registry_def using t e0 by metis
  have c: "fst (providers echo_registry ''Echo'') = [''builtin'']"
    by (simp add: providers_def echo_registry_def Add_def add_def empty_registry_def
        subscript_def assign_def)
  have d: "Add_cond 0 False ''Echo'' (Some second_maker) ''vendor'' echo_registry = echo_registry"
    using registration_handle [where reg = echo_registry and cond = False] by simp
  have e: "fst (providers (Add_cond 0 True ''Echo'' (Some second_maker) ''vendor'' echo_registry)
             ''Echo'') = [''vendor'', ''builtin'']"
    by (simp add: providers_def echo_registry_def Add_def Add_cond_def add_def empty_registry_def
        subscript_def assign_def)
  show ?thesis using a b c d e by blast
qed

section \<open>The empty provider name\<close>

text \<open>
  Claim C10. The empty string is the value for no provider hint. \<open>make_a\<close> with the empty
  string as provider is \<open>make_a\<close> with the provider left out, and both run the entry at
  \<open>begin()\<close> of the base name's providers: whether or not the empty name is a key, and
  also when it is a key that is not first; with no providers they return the null
  pointer. Registration accepts the empty string as a provider name. A request that
  names a provider runs what is stored under exactly that name, which is never the entry
  under the empty name, and registering a maker under the empty name changes the result of
  no such request. So the maker under the empty name is run only by a request without a
  hint, and only when its entry is first.
\<close>

theorem empty_provider_is_no_hint:
  "make_a reg spec (Some []) = make_a reg spec None
   \<and> make_a reg spec (Some [])
       = (try_maker
            (case m_maker_fns reg (algo_name spec) of
               None \<Rightarrow> null_maker
             | Some [] \<Rightarrow> null_maker
             | Some (e # es) \<Rightarrow> snd e) spec,
          reg)
   \<and> (registered_maker reg name [] = None \<longrightarrow>
        registered_maker (add pos name [] fn reg) name [] = Some fn)
   \<and> (provider \<noteq> [] \<longrightarrow>
        make_a reg spec (Some provider)
          = (try_maker
               (case registered_maker reg (algo_name spec) provider of
                  Some f \<Rightarrow> f | None \<Rightarrow> null_maker) spec,
             reg))
   \<and> (provider \<noteq> [] \<longrightarrow>
        fst (make_a (add pos name [] fn reg) spec (Some provider))
          = fst (make_a reg spec (Some provider)))
   \<and> (provider \<noteq> [] \<longrightarrow>
        fst (find_maker (add pos name [] fn reg) spec provider) = fst (find_maker reg spec provider))
   \<and> (provider \<noteq> [] \<longrightarrow>
        fst (find_maker reg spec provider)
          = (case registered_maker reg (algo_name spec) provider of
               Some f \<Rightarrow> f | None \<Rightarrow> null_maker))
   \<and> (m_maker_fns reg (algo_name spec) = Some [([], fn)] \<longrightarrow>
        fst (find_maker reg spec []) = fn)"
proof -
  have a: "make_a reg spec (Some []) = make_a reg spec None"
    by (simp add: make_a_def)
  have head: "fst (find_maker reg spec [])
                = (case m_maker_fns reg (algo_name spec) of
                     None \<Rightarrow> null_maker
                   | Some [] \<Rightarrow> null_maker
                   | Some (e # es) \<Rightarrow> snd e)"
    by (simp add: find_maker_def split: option.splits list.splits)
  have h: "make_a reg spec (Some [])
       = (try_maker
            (case m_maker_fns reg (algo_name spec) of
               None \<Rightarrow> null_maker
             | Some [] \<Rightarrow> null_maker
             | Some (e # es) \<Rightarrow> snd e) spec,
          reg)"
    by (simp add: make_a_def make_eq head)
  have b: "registered_maker reg name [] = None \<longrightarrow>
             registered_maker (add pos name [] fn reg) name [] = Some fn"
    by (simp add: registered_maker_add)
  have c: "provider \<noteq> [] \<longrightarrow>
             fst (find_maker (add pos name [] fn reg) spec provider)
               = fst (find_maker reg spec provider)"
    by (simp add: find_maker_explicit registered_maker_add split: option.splits)
  have d: "provider \<noteq> [] \<longrightarrow>
             fst (find_maker reg spec provider)
               = (case registered_maker reg (algo_name spec) provider of
                    Some f \<Rightarrow> f | None \<Rightarrow> null_maker)"
    by (simp add: find_maker_explicit split: option.splits)
  have k: "provider \<noteq> [] \<longrightarrow>
        make_a reg spec (Some provider)
          = (try_maker
               (case registered_maker reg (algo_name spec) provider of
                  Some f \<Rightarrow> f | None \<Rightarrow> null_maker) spec,
             reg)"
    using d by (simp add: make_a_def make_eq)
  have i: "provider \<noteq> [] \<longrightarrow>
        fst (make_a (add pos name [] fn reg) spec (Some provider))
          = fst (make_a reg spec (Some provider))"
    using c by (simp add: make_a_def make_eq)
  have e: "m_maker_fns reg (algo_name spec) = Some [([], fn)] \<longrightarrow>
             fst (find_maker reg spec []) = fn"
    by (simp add: find_maker_def)
  show ?thesis using a h b k i c d e by blast
qed

text \<open>
  Three tables for \<open>Echo\<close>. Where only \<open>builtin\<close> is registered, the empty string runs the
  maker of \<open>builtin\<close> (instance 1): it is not looked up as a key. Where the empty name is
  registered with \<open>second_maker\<close> but \<open>builtin\<close> is first, the empty string still runs the
  maker of \<open>builtin\<close>. Where the empty name is first, the empty string runs its maker
  (instance 2), and the requests for \<open>builtin\<close> and \<open>vendor\<close> are as before it was
  registered.
\<close>

theorem empty_provider_is_no_hint_witness:
  "registered_maker echo_registry ''Echo'' [] = None
   \<and> fst (make_a echo_registry echo_spec (Some [])) = Returned (Some 1)
   \<and> fst (make_a echo_registry echo_spec None) = Returned (Some 1)
   \<and> registered_maker shadowed_registry ''Echo'' [] = Some (Some second_maker)
   \<and> fst (make_a shadowed_registry echo_spec (Some [])) = Returned (Some 1)
   \<and> registered_maker unnamed_registry ''Echo'' [] = Some (Some second_maker)
   \<and> fst (make_a unnamed_registry echo_spec (Some [])) = Returned (Some 2)
   \<and> fst (make_a unnamed_registry echo_spec (Some ''builtin'')) = Returned (Some 1)
   \<and> fst (make_a unnamed_registry echo_spec (Some ''vendor'')) = Returned None
   \<and> fst (find_maker unnamed_registry echo_spec ''builtin'') = Some echo_maker
   \<and> fst (find_maker unnamed_registry echo_spec ''vendor'') = null_maker
   \<and> fst (find_maker (add 0 ''Echo'' [] (Some second_maker) empty_registry) echo_spec [])
       = Some second_maker"
proof -
  note r = echo_registry_entries
  have n: "''builtin'' \<noteq> []" "''vendor'' \<noteq> []" "algo_name echo_spec = ''Echo''"
    by (simp_all add: echo_spec_def)
  have m: "m_maker_fns (add 0 ''Echo'' [] (Some second_maker) empty_registry) (algo_name echo_spec)
             = Some [([], Some second_maker)]"
    by (simp add: add_def empty_registry_def subscript_def assign_def echo_spec_def)
  have te: "m_maker_fns echo_registry (algo_name echo_spec) = Some [(''builtin'', Some echo_maker)]"
    by (simp add: echo_registry_def Add_def add_def empty_registry_def subscript_def assign_def
        echo_spec_def)
  have ts: "m_maker_fns shadowed_registry (algo_name echo_spec)
              = Some [(''builtin'', Some echo_maker), ([], Some second_maker)]"
    by (simp add: shadowed_registry_def add_def empty_registry_def subscript_def assign_def
        echo_spec_def)
  have tu: "m_maker_fns unnamed_registry (algo_name echo_spec)
              = Some [([], Some second_maker), (''builtin'', Some echo_maker)]"
    by (simp add: unnamed_registry_def echo_registry_def Add_def add_def empty_registry_def
        subscript_def assign_def echo_spec_def)
  have run: "try_maker (Some echo_maker) echo_spec = Returned (Some 1)"
    "try_maker (Some second_maker) echo_spec = Returned (Some 2)"
    "try_maker null_maker echo_spec = (Returned None :: nat result)"
    by (simp_all add: try_maker_def invoke_def echo_maker_def second_maker_def null_maker_def)
  note t1 = empty_provider_is_no_hint [where reg = echo_registry and spec = echo_spec
      and name = "''Echo''" and pos = 0 and fn = "Some second_maker" and provider = "''builtin''"]
  note t2 = empty_provider_is_no_hint [where reg = echo_registry and spec = echo_spec
      and name = "''Echo''" and pos = 0 and fn = "Some second_maker" and provider = "''vendor''"]
  note t3 = empty_provider_is_no_hint [where
      reg = "add 0 ''Echo'' [] (Some second_maker) empty_registry" and spec = echo_spec
      and fn = "Some second_maker"]
  note t4 = empty_provider_is_no_hint [where reg = shadowed_registry and spec = echo_spec]
  note t5 = empty_provider_is_no_hint [where reg = unnamed_registry and spec = echo_spec]
  note omitted = t1 [THEN conjunct1]
  note head1 = t1 [THEN conjunct2, THEN conjunct1]
  note head4 = t4 [THEN conjunct2, THEN conjunct1]
  note head5 = t5 [THEN conjunct2, THEN conjunct1]
  note accepts = t1 [THEN conjunct2, THEN conjunct2, THEN conjunct1]
  note named1 = t1 [THEN conjunct2, THEN conjunct2, THEN conjunct2, THEN conjunct1]
  note named2 = t2 [THEN conjunct2, THEN conjunct2, THEN conjunct2, THEN conjunct1]
  note same1 = t1 [THEN conjunct2, THEN conjunct2, THEN conjunct2, THEN conjunct2, THEN conjunct1]
  note same2 = t2 [THEN conjunct2, THEN conjunct2, THEN conjunct2, THEN conjunct2, THEN conjunct1]
  have e1: "fst (make_a echo_registry echo_spec (Some [])) = Returned (Some 1)"
    by (simp add: head1 te run)
  have e2: "fst (make_a echo_registry echo_spec None) = Returned (Some 1)"
    using omitted e1 by simp
  have s1: "registered_maker shadowed_registry ''Echo'' [] = Some (Some second_maker)"
    by (simp add: shadowed_registry_def registered_maker_add registered_maker_empty)
  have s2: "fst (make_a shadowed_registry echo_spec (Some [])) = Returned (Some 1)"
    by (simp add: head4 ts run)
  have a: "registered_maker unnamed_registry ''Echo'' [] = Some (Some second_maker)"
    unfolding unnamed_registry_def using accepts r(1) by blast
  have u1: "fst (make_a unnamed_registry echo_spec (Some [])) = Returned (Some 2)"
    by (simp add: head5 tu run)
  have x1: "fst (make_a echo_registry echo_spec (Some ''builtin'')) = Returned (Some 1)"
    using named1 by (simp add: r n run)
  have x2: "fst (make_a echo_registry echo_spec (Some ''vendor'')) = Returned None"
    using named2 by (simp add: r n run)
  have u2: "fst (make_a unnamed_registry echo_spec (Some ''builtin'')) = Returned (Some 1)"
    unfolding unnamed_registry_def using same1 x1 by simp
  have u3: "fst (make_a unnamed_registry echo_spec (Some ''vendor'')) = Returned None"
    unfolding unnamed_registry_def using same2 x2 by simp
  have b: "fst (find_maker unnamed_registry echo_spec ''builtin'') = Some echo_maker"
    unfolding unnamed_registry_def using t1 r n by simp
  have c: "fst (find_maker unnamed_registry echo_spec ''vendor'') = null_maker"
    unfolding unnamed_registry_def using t2 r n by simp
  have d: "fst (find_maker (add 0 ''Echo'' [] (Some second_maker) empty_registry) echo_spec [])
       = Some second_maker"
    using t3 m by blast
  show ?thesis using r(1) e1 e2 s1 s2 a u1 u2 u3 b c d by blast
qed

section \<open>Several providers and no hint\<close>

text \<open>
  Claim C1. With two providers registered for \<open>AES-128\<close> and no provider hint, the
  specification asks for the provider of highest weight, \<open>hw\<close> under \<open>example_weight\<close>. The
  code returns the entry at \<open>begin()\<close> and never calls \<open>static_provider_weight\<close>: where \<open>sw\<close>
  was registered last it constructs with the maker of \<open>sw\<close> (instance 10), although \<open>hw\<close> is
  registered and an explicit request for it works; and the same two registrations in the
  other order select the other maker (instance 20).
\<close>

theorem no_hint_ignores_weight:
  "fst (make_a sw_registered_last aes_spec None) = Returned (Some 10)
   \<and> fst (make_a hw_registered_last aes_spec None) = Returned (Some 20)
   \<and> spec_selection example_weight (fst (providers sw_registered_last ''AES-128'')) = Some ''hw''
   \<and> spec_selection example_weight (fst (providers hw_registered_last ''AES-128'')) = Some ''hw''
   \<and> registered_maker sw_registered_last ''AES-128'' ''hw'' = Some (Some hw_maker)
   \<and> registered_maker sw_registered_last ''AES-128'' ''sw'' = Some (Some sw_maker)
   \<and> registered_maker hw_registered_last ''AES-128'' ''hw'' = Some (Some hw_maker)
   \<and> registered_maker hw_registered_last ''AES-128'' ''sw'' = Some (Some sw_maker)
   \<and> fst (make_a sw_registered_last aes_spec (Some ''hw'')) = Returned (Some 20)"
proof -
  have t1: "m_maker_fns sw_registered_last ''AES-128''
              = Some [(''sw'', Some sw_maker), (''hw'', Some hw_maker)]"
    by (simp add: sw_registered_last_def add_def empty_registry_def subscript_def assign_def)
  have t2: "m_maker_fns hw_registered_last ''AES-128''
              = Some [(''hw'', Some hw_maker), (''sw'', Some sw_maker)]"
    by (simp add: hw_registered_last_def add_def empty_registry_def subscript_def assign_def)
  have a: "fst (make_a sw_registered_last aes_spec None) = Returned (Some 10)"
    by (simp add: make_a_def make_eq find_maker_def t1 aes_spec_def
        try_maker_def invoke_def sw_maker_def)
  have b: "fst (make_a hw_registered_last aes_spec None) = Returned (Some 20)"
    by (simp add: make_a_def make_eq find_maker_def t2 aes_spec_def
        try_maker_def invoke_def hw_maker_def)
  have c: "spec_selection example_weight (fst (providers sw_registered_last ''AES-128''))
             = Some ''hw''"
    by (simp add: providers_def t1 spec_prefers_def example_weight_def)
  have d: "spec_selection example_weight (fst (providers hw_registered_last ''AES-128''))
             = Some ''hw''"
    by (simp add: providers_def t2 spec_prefers_def example_weight_def)
  have e: "registered_maker sw_registered_last ''AES-128'' ''hw'' = Some (Some hw_maker)"
    "registered_maker sw_registered_last ''AES-128'' ''sw'' = Some (Some sw_maker)"
    "registered_maker hw_registered_last ''AES-128'' ''hw'' = Some (Some hw_maker)"
    "registered_maker hw_registered_last ''AES-128'' ''sw'' = Some (Some sw_maker)"
    by (simp_all add: registered_maker_def t1 t2)
  have f: "fst (make_a sw_registered_last aes_spec (Some ''hw'')) = Returned (Some 20)"
    by (simp add: make_a_def make_eq find_maker_def t1 aes_spec_def
        try_maker_def invoke_def hw_maker_def)
  show ?thesis using a b c d e f by blast
qed

end
